theory Spec2Isabelle
  imports Main
begin

section \<open>The lifecycle shell \<open>bot.py\<close> as a state-passing program\<close>

text \<open>
  \<open>bot.py\<close> is a script: its module body runs top to bottom when the interpreter loads
  it. Everything it does goes through collaborators outside the file (the platform SDK,
  the import system, the file system, the health-check server, the logger). The model
  keeps the script's control flow and replaces each collaborator by its outcome in the
  run under consideration, collected in the record \<open>env\<close>; what the script does is
  recorded as a chronological list of events. Logging, \<open>MemoryStorage()\<close>,
  \<open>Dispatcher(...)\<close> and the \<open>HealthCheckServer\<close> constructor are taken to return
  normally, and so are the two operations of the in-memory session store; every
  operation that the script guards with \<open>try\<close> or that parses input can raise.
\<close>

subsection \<open>Exceptions and the way a process ends\<close>

text \<open>
  Python's exception hierarchy, as far as the script distinguishes it: classes derived
  from \<open>Exception\<close> (caught by \<open>except Exception\<close>), and the two classes that derive
  from \<open>BaseException\<close> only. \<open>ModuleNotFoundError\<close> is a subclass of \<open>ImportError\<close>;
  \<open>OtherException\<close> stands for any further class derived from \<open>Exception\<close>. The string
  is the message, \<open>str(e)\<close>.
\<close>

datatype exception_class =
  ValueError | ValidationError | ImportError | ModuleNotFoundError | OtherException

datatype exn =
  Exception exception_class string | KeyboardInterrupt | SystemExit int

datatype outcome = Finished | Terminated exn

text \<open>
  The exit status of the interpreter: 0 when the module body runs to its end, the
  argument of \<open>sys.exit\<close>, 1 after a traceback, 130 after an uncaught
  \<open>KeyboardInterrupt\<close>.
\<close>

fun exit_status :: "outcome \<Rightarrow> int" where
  "exit_status Finished = 0"
| "exit_status (Terminated (SystemExit n)) = n"
| "exit_status (Terminated (Exception k m)) = 1"
| "exit_status (Terminated KeyboardInterrupt) = 130"

subsection \<open>Events and state\<close>

datatype event =
    LogInfo string
  | LogError string
  | BotCreated string
  | StorageCreated
  | DispatcherCreated
  | WebServerCreated int
  | ImportHandlers
  | SysPathInsert
  | RegisterModule string
  | ExecModule string string
  | CoroutineCreated string
  | StartServerCalled
  | ListenerStarted
  | PollingStarted
  | PollingStopped
  | StorageClose
  | StorageWaitClosed

text \<open>
  A module object in \<open>sys.modules\<close> is \<open>Partial\<close> from the moment it is registered
  until its code has run to the end, \<open>Initialized\<close> afterwards.
\<close>

datatype module_state = Partial | Initialized

datatype client = Client string

record state =
  trace :: "event list"
  sys_modules :: "(string \<times> module_state) list"
  loaded :: "string list"

text \<open>
  \<open>trace\<close> is what happened so far, oldest first; \<open>sys_modules\<close> is the process-wide
  module registry (a dict, in insertion order); \<open>loaded\<close> is the HandlerModuleSet: the
  modules whose code ran to the end and so registered their routes.
\<close>

record env =
  bot_token :: "string option"
  Bot_init :: "string \<Rightarrow> exn option"
  PORT :: "string option"
  py_int :: "string \<Rightarrow> string + int"
  import_handlers :: "exn option"
  isdir_handlers :: bool
  exec_module :: "string \<Rightarrow> exn option"
  is_main :: bool
  start_server :: "exn option"

text \<open>
  \<open>bot_token\<close> is \<open>config.bot_token\<close> (\<open>None\<close> when the variable is unset);
  \<open>Bot_init t\<close> is the exception \<open>Bot(token=t, ...)\<close> raises, if any; \<open>PORT\<close> is the
  environment variable; \<open>py_int v\<close> is the built-in \<open>int(v)\<close> on a string: its value, or
  the message of the \<open>ValueError\<close> it raises; \<open>import_handlers\<close> is the exception raised
  by the statement \<open>import handlers\<close>, if any; \<open>isdir_handlers\<close> is
  \<open>os.path.isdir(pkg_dir)\<close>; \<open>exec_module n\<close> is the exception raised by
  \<open>loader.exec_module\<close> for the module registered as \<open>n\<close>, if any; \<open>is_main\<close> is
  \<open>__name__ == "__main__"\<close>; \<open>start_server\<close> is the exception raised by the awaited
  \<open>web_server.start_server()\<close>, if any.
\<close>

definition init_state :: state where
  "init_state = \<lparr>trace = [], sys_modules = [], loaded = []\<rparr>"

definition emit :: "event \<Rightarrow> state \<Rightarrow> state" where
  "emit e s = s\<lparr>trace := trace s @ [e]\<rparr>"

definition logger_info :: "string \<Rightarrow> state \<Rightarrow> state" where
  "logger_info m = emit (LogInfo m)"

definition logger_error :: "string \<Rightarrow> state \<Rightarrow> state" where
  "logger_error m = emit (LogError m)"

text \<open>\<open>d[k] = v\<close> on a dict: replace the value of an existing key, else append.\<close>

fun dict_set :: "'k \<Rightarrow> 'v \<Rightarrow> ('k \<times> 'v) list \<Rightarrow> ('k \<times> 'v) list" where
  "dict_set k v [] = [(k, v)]"
| "dict_set k v ((k', v') # d) = (if k' = k then (k, v) # d else (k', v') # dict_set k v d)"

definition set_module :: "string \<Rightarrow> module_state \<Rightarrow> state \<Rightarrow> state" where
  "set_module n m s = s\<lparr>sys_modules := dict_set n m (sys_modules s)\<rparr>"

text \<open>The events a computation added: those of the later state beyond the earlier one.\<close>

definition new_events :: "state \<Rightarrow> state \<Rightarrow> event list" where
  "new_events s s' = drop (length (trace s)) (trace s')"

subsection \<open>Client construction (lines 22 to 33)\<close>

text \<open>
  The body of the \<open>try\<close>: the credential guard raises \<open>ValueError\<close> on a falsy token
  (\<open>None\<close> or the empty string), then \<open>Bot(...)\<close> is constructed.
\<close>

definition construct_bot :: "env \<Rightarrow> exn + client" where
  "construct_bot env =
     (case bot_token env of
        None \<Rightarrow> Inl (Exception ValueError ''BOT_TOKEN is not set. Please check your .env file'')
      | Some t \<Rightarrow>
          if t = [] then
            Inl (Exception ValueError ''BOT_TOKEN is not set. Please check your .env file'')
          else (case Bot_init env t of Some e \<Rightarrow> Inl e | None \<Rightarrow> Inr (Client t)))"

text \<open>The two \<open>except\<close> clauses, in the source's order; anything else propagates.\<close>

fun bot_except :: "exn \<Rightarrow> state \<Rightarrow> (exn + client option) \<times> state" where
  "bot_except (Exception ValidationError m) s =
     (Inr None,
      logger_error ''Invalid bot token provided. Please check your BOT_TOKEN in .env file'' s)"
| "bot_except (Exception k m) s =
     (Inr None, logger_error (''Failed to initialize bot: '' @ m) s)"
| "bot_except e s = (Inl e, s)"

definition init_bot :: "env \<Rightarrow> state \<Rightarrow> (exn + client option) \<times> state" where
  "init_bot env s =
     (case construct_bot env of
        Inr (Client t) \<Rightarrow>
          (Inr (Some (Client t)),
           logger_info ''Bot initialized successfully'' (emit (BotCreated t) s))
      | Inl e \<Rightarrow> bot_except e s)"

subsection \<open>The listener's port (line 41)\<close>

text \<open>
  \<open>int(os.environ.get("PORT", 8080))\<close>: the default is the integer 8080 when the
  variable is absent; a present value goes through \<open>int\<close>, which raises \<open>ValueError\<close>
  on a string that is not an integer literal. The argument is evaluated before
  \<open>HealthCheckServer\<close> is called.
\<close>

definition listener_port :: "env \<Rightarrow> exn + int" where
  "listener_port env =
     (case PORT env of
        None \<Rightarrow> Inr 8080
      | Some v \<Rightarrow>
          (case py_int env v of
             Inl msg \<Rightarrow> Inl (Exception ValueError msg)
           | Inr n \<Rightarrow> Inr n))"

subsection \<open>Handler-module resolution (lines 44 to 75)\<close>

text \<open>
  Loading one module from its file (lines 53 to 59 and 68 to 71): the module object is
  put into \<open>sys.modules\<close> under its name, then its code is executed.
  \<open>spec_from_file_location\<close> and \<open>module_from_spec\<close> only build objects from a name and
  a path ending in \<open>.py\<close>; the file is first read by \<open>exec_module\<close>.
\<close>

definition load_module :: "env \<Rightarrow> string \<Rightarrow> string \<Rightarrow> state \<Rightarrow> exn option \<times> state" where
  "load_module env name rel s =
     (let s1 = emit (RegisterModule name) (set_module name Partial s);
          s2 = emit (ExecModule name rel) s1
      in case exec_module env name of
           None \<Rightarrow> (None, (set_module name Initialized s2)\<lparr>loaded := loaded s2 @ [name]\<rparr>)
         | Some e \<Rightarrow> (Some e, s2))"

text \<open>\<open>except Exception as e: logger.error(f"<prefix>{e}")\<close>.\<close>

fun except_log :: "string \<Rightarrow> exn option \<times> state \<Rightarrow> exn option \<times> state" where
  "except_log prefix (None, s) = (None, s)"
| "except_log prefix (Some (Exception k m), s) = (None, logger_error (prefix @ m) s)"
| "except_log prefix (Some e, s) = (Some e, s)"

definition load_package :: "env \<Rightarrow> state \<Rightarrow> exn option \<times> state" where
  "load_package env s =
     except_log ''Failed to load handlers package: ''
       (load_module env ''handlers'' ''__init__.py'' s)"

definition load_submodule :: "env \<Rightarrow> string \<Rightarrow> string \<Rightarrow> state \<Rightarrow> exn option \<times> state" where
  "load_submodule env name rel s =
     except_log (''Failed to import '' @ name @ '': '') (load_module env name rel s)"

text \<open>The fixed list of lines 62 to 66; the paths are relative to the package directory.\<close>

definition submodules :: "(string \<times> string) list" where
  "submodules =
     [(''handlers.start'', ''start.py''),
      (''handlers.admin'', ''admin/__init__.py''),
      (''handlers.owner'', ''owner/__init__.py'')]"

fun load_submodules :: "env \<Rightarrow> (string \<times> string) list \<Rightarrow> state \<Rightarrow> exn option \<times> state" where
  "load_submodules env [] s = (None, s)"
| "load_submodules env ((name, rel) # rest) s =
     (case load_submodule env name rel s of
        (None, s') \<Rightarrow> load_submodules env rest s'
      | (Some e, s') \<Rightarrow> (Some e, s'))"

text \<open>The body of \<open>except ModuleNotFoundError\<close> (lines 47 to 75).\<close>

definition fallback :: "env \<Rightarrow> state \<Rightarrow> exn option \<times> state" where
  "fallback env s =
     (let s1 = emit SysPathInsert s in
      if isdir_handlers env then
        (case load_package env s1 of
           (None, s2) \<Rightarrow> load_submodules env submodules s2
         | (Some e, s2) \<Rightarrow> (Some e, s2))
      else (None, logger_error ''Handlers directory not found'' s1))"

text \<open>
  \<open>try: import handlers\<close> with its single clause \<open>except ModuleNotFoundError\<close>. A
  successful import leaves the package initialised in the registry; a failed one leaves
  no entry.
\<close>

fun import_except :: "env \<Rightarrow> exn \<Rightarrow> state \<Rightarrow> exn option \<times> state" where
  "import_except env (Exception ModuleNotFoundError m) s = fallback env s"
| "import_except env e s = (Some e, s)"

definition resolve_handlers :: "env \<Rightarrow> state \<Rightarrow> exn option \<times> state" where
  "resolve_handlers env s =
     (let s1 = emit ImportHandlers s in
      case import_handlers env of
        None \<Rightarrow> (None, (set_module ''handlers'' Initialized s1)\<lparr>loaded := loaded s1 @ [''handlers'']\<rparr>)
      | Some e \<Rightarrow> import_except env e s1)"

subsection \<open>Coroutines\<close>

text \<open>
  Calling a function declared with \<open>async def\<close> runs none of its body: the call
  returns a coroutine object, and the body runs only when that object is awaited or
  handed to an event loop.
\<close>

type_synonym body = "state \<Rightarrow> (exn + unit) \<times> state"

datatype coroutine = Coroutine body

definition call_async :: "string \<Rightarrow> body \<Rightarrow> state \<Rightarrow> (exn + coroutine) \<times> state" where
  "call_async name f s = (Inr (Coroutine f), emit (CoroutineCreated name) s)"

fun await :: "coroutine \<Rightarrow> body" where
  "await (Coroutine f) s = f s"

subsection \<open>The hooks (lines 77 to 96)\<close>

fun startup_except :: "exn \<Rightarrow> state \<Rightarrow> (exn + unit) \<times> state" where
  "startup_except (Exception k m) s =
     (Inr (), logger_error (''Failed to start health check server: '' @ m) s)"
| "startup_except e s = (Inl e, s)"

definition on_startup :: "env \<Rightarrow> body" where
  "on_startup env s =
     (let s1 = logger_info ''Bot is starting up...'' s;
          s2 = emit StartServerCalled s1
      in case start_server env of
           None \<Rightarrow>
             (Inr (), logger_info ''Health check server started successfully''
                        (emit ListenerStarted s2))
         | Some e \<Rightarrow> startup_except e s2)"

text \<open>
  Modelled from the spec: the class \<open>MemoryStorage\<close> belongs to the platform SDK, which
  is not under src/. Section 3 of the specification describes this store as volatile,
  backed by process memory: \<open>close\<close> empties a table held in memory and \<open>wait_closed\<close>
  has nothing to wait for, so both awaits return. \<open>dp.storage\<close> is the store constructed
  at line 36 and bound to the dispatcher at line 38.
\<close>

definition on_shutdown :: "env \<Rightarrow> body" where
  "on_shutdown env s =
     (let s1 = logger_info ''Bot is shutting down...'' s;
          s2 = emit StorageClose s1;
          s3 = emit StorageWaitClosed s2
      in (Inr (), logger_info ''Bot shutdown complete'' s3))"

subsection \<open>The executor and \<open>main\<close> (lines 98 to 114)\<close>

text \<open>
  Modelled from the spec: \<open>executor.start_polling\<close> belongs to the platform SDK, which
  is not under src/. Section 4.4 of the specification describes it as the blocking
  \<open>run()\<close>: it invokes the startup hook before entering the polling loop and the
  shutdown hook when the loop exits; the loop runs until the stop request. The
  teardown is guaranteed whichever phase failed (sections 1 and 5): when the startup
  hook ends with an exception the loop is not entered and the shutdown hook runs all
  the same. After it, an error of the startup hook leaves the call, where \<open>main\<close>
  catches it (section 4.4); an interruption is the stop request, and the call returns
  (the graceful stop of section 6). An exception of the shutdown hook itself leaves the
  call.
\<close>

fun after_shutdown :: "exn \<Rightarrow> (exn + unit) \<times> state \<Rightarrow> (exn + unit) \<times> state" where
  "after_shutdown e (Inl e', s) = (Inl e', s)"
| "after_shutdown (Exception k m) (Inr u, s) = (Inl (Exception k m), s)"
| "after_shutdown e (Inr u, s) = (Inr (), s)"

definition start_polling :: "env \<Rightarrow> body" where
  "start_polling env s =
     (case await (Coroutine (on_startup env)) s of
        (Inl e, s1) \<Rightarrow> after_shutdown e (await (Coroutine (on_shutdown env)) s1)
      | (Inr u, s1) \<Rightarrow>
          await (Coroutine (on_shutdown env)) (emit PollingStopped (emit PollingStarted s1)))"

fun main_except :: "(exn + unit) \<times> state \<Rightarrow> (exn + unit) \<times> state" where
  "main_except (Inl (Exception k m), s) = (Inr (), logger_error (''Error starting bot: '' @ m) s)"
| "main_except r = r"

text \<open>The body of \<open>async def main()\<close>; \<open>cl\<close> is the module-level variable \<open>bot\<close>.\<close>

definition main :: "env \<Rightarrow> client option \<Rightarrow> body" where
  "main env cl s =
     (case cl of
        None \<Rightarrow> (Inr (), logger_error ''Bot not initialized. Exiting.'' s)
      | Some b \<Rightarrow> main_except (start_polling env (logger_info ''Starting bot polling...'' s)))"

subsection \<open>The entry point and the module body\<close>

text \<open>
  Lines 116 to 122: under the \<open>__main__\<close> guard the statement \<open>main()\<close> is an
  expression statement; its value, the coroutine object, is dropped.
\<close>

fun guard_except :: "exn \<Rightarrow> state \<Rightarrow> outcome \<times> state" where
  "guard_except KeyboardInterrupt s = (Finished, logger_info ''Bot stopped by user'' s)"
| "guard_except (Exception k m) s = (Finished, logger_error (''Unexpected error: '' @ m) s)"
| "guard_except e s = (Terminated e, s)"

definition entry_point :: "env \<Rightarrow> client option \<Rightarrow> state \<Rightarrow> outcome \<times> state" where
  "entry_point env cl s =
     (if is_main env then
        (case call_async ''main'' (main env cl) s of
           (Inr c, s') \<Rightarrow> (Finished, s')
         | (Inl e, s') \<Rightarrow> guard_except e s')
      else (Finished, s))"

text \<open>The module body from line 22 on, started in the empty state.\<close>

definition with_bot :: "env \<Rightarrow> client \<Rightarrow> state \<Rightarrow> outcome \<times> state" where
  "with_bot env b s =
     (let s1 = emit DispatcherCreated s in
      case listener_port env of
        Inl e \<Rightarrow> (Terminated e, s1)
      | Inr p \<Rightarrow>
          (case resolve_handlers env (emit (WebServerCreated p) s1) of
             (Some e, s2) \<Rightarrow> (Terminated e, s2)
           | (None, s2) \<Rightarrow> entry_point env (Some b) s2))"

definition bot_py :: "env \<Rightarrow> outcome \<times> state" where
  "bot_py env =
     (case init_bot env init_state of
        (Inl e, s1) \<Rightarrow> (Terminated e, s1)
      | (Inr cl, s1) \<Rightarrow>
          (let s2 = emit StorageCreated s1 in
           case cl of
             Some b \<Rightarrow> with_bot env b s2
           | None \<Rightarrow>
               (Terminated (SystemExit 1),
                logger_error ''Dispatcher not created due to bot initialization failure'' s2)))"

section \<open>Notions used to state the properties\<close>

text \<open>
  A call is \<open>ordinary\<close> when it returns or raises an exception derived from
  \<open>Exception\<close>: the failures that \<open>except Exception\<close> is written for.
  \<open>before a b xs\<close>: \<open>b\<close> occurs in \<open>xs\<close>, and \<open>a\<close> occurs ahead of the first \<open>b\<close>.
  \<open>failure_log\<close> and \<open>load_events\<close> name the events one guarded load adds to the
  trace; \<open>is_exec\<close> and \<open>storage_op\<close> select the executions of module code and the
  calls on the session store; \<open>hook_event\<close> singles out the events that only the hooks
  and the polling loop produce; \<open>extends s s'\<close>: the later state's trace is the earlier
  one followed by events none of which is a hook's.
\<close>

definition ordinary :: "exn option \<Rightarrow> bool" where
  "ordinary r = (case r of None \<Rightarrow> True | Some (Exception k m) \<Rightarrow> True | Some e \<Rightarrow> False)"

definition before :: "'a \<Rightarrow> 'a \<Rightarrow> 'a list \<Rightarrow> bool" where
  "before a b xs = (b \<in> set xs \<and> a \<in> set (takeWhile (\<lambda>x. x \<noteq> b) xs))"

definition failure_log :: "env \<Rightarrow> string \<Rightarrow> string \<Rightarrow> event list" where
  "failure_log env pre n =
     (case exec_module env n of Some (Exception k m) \<Rightarrow> [LogError (pre @ m)] | _ \<Rightarrow> [])"

fun load_events :: "env \<Rightarrow> string \<times> string \<Rightarrow> event list" where
  "load_events env (n, r) =
     [RegisterModule n, ExecModule n r] @ failure_log env (''Failed to import '' @ n @ '': '') n"

fun hook_event :: "event \<Rightarrow> bool" where
  "hook_event StartServerCalled = True"
| "hook_event ListenerStarted = True"
| "hook_event PollingStarted = True"
| "hook_event PollingStopped = True"
| "hook_event StorageClose = True"
| "hook_event StorageWaitClosed = True"
| "hook_event e = False"

definition extends :: "state \<Rightarrow> state \<Rightarrow> bool" where
  "extends s s' = (\<exists>evs. trace s' = trace s @ evs \<and> (\<forall>e \<in> set evs. \<not> hook_event e))"

fun is_exec :: "event \<Rightarrow> bool" where
  "is_exec (ExecModule n r) = True"
| "is_exec e = False"


text \<open>
  The credential inputs: \<open>empty\<close> is a token that is unset or the empty string;
  \<open>rejected\<close> is a non-empty token on which the construction of the client raises an
  exception derived from \<open>Exception\<close> (\<open>ValidationError\<close> for a malformed token);
  \<open>valid\<close> is a non-empty token from which the client is constructed.
\<close>

definition empty_credential :: "env \<Rightarrow> bool" where
  "empty_credential env = (bot_token env = None \<or> bot_token env = Some [])"

definition rejected_credential :: "env \<Rightarrow> bool" where
  "rejected_credential env =
     (case bot_token env of
        None \<Rightarrow> False
      | Some t \<Rightarrow> t \<noteq> [] \<and> (case Bot_init env t of Some (Exception k m) \<Rightarrow> True | _ \<Rightarrow> False))"

definition valid_credential :: "env \<Rightarrow> bool" where
  "valid_credential env =
     (case bot_token env of None \<Rightarrow> False | Some t \<Rightarrow> t \<noteq> [] \<and> Bot_init env t = None)"

subsection \<open>Example environments\<close>

text \<open>
  \<open>decimal\<close> reads an unsigned decimal numeral. The example environments use
  \<open>int_of_literal\<close> for the built-in \<open>int\<close>: it agrees with it, value and message, on
  the strings the examples pass to it (short strings of ASCII digits, and \<open>abc\<close>).
\<close>

definition digit :: "char \<Rightarrow> nat option" where
  "digit c = (let n = (of_char c :: nat) in if 48 \<le> n \<and> n \<le> 57 then Some (n - 48) else None)"

fun decimal_from :: "int \<Rightarrow> string \<Rightarrow> int option" where
  "decimal_from acc [] = Some acc"
| "decimal_from acc (c # cs) =
     (case digit c of None \<Rightarrow> None | Some d \<Rightarrow> decimal_from (10 * acc + int d) cs)"

definition decimal :: "string \<Rightarrow> int option" where
  "decimal v = (if v = [] then None else decimal_from 0 v)"

definition int_of_literal :: "string \<Rightarrow> string + int" where
  "int_of_literal v =
     (case decimal v of
        None \<Rightarrow> Inl (''invalid literal for int() with base 10: '' @ [CHR 0x27] @ v @ [CHR 0x27])
      | Some n \<Rightarrow> Inr n)"

text \<open>
  A run with a well-formed token, no \<open>PORT\<close>, an importable handler package and every
  collaborator succeeding, started as \<open>python bot.py\<close>.
\<close>

definition sample_env :: env where
  "sample_env =
     \<lparr>bot_token = Some ''123456:AAExampleToken'', Bot_init = (\<lambda>t. None), PORT = None,
      py_int = int_of_literal, import_handlers = None, isdir_handlers = True,
      exec_module = (\<lambda>n. None), is_main = True, start_server = None\<rparr>"

text \<open>
  The package is not found by the import system, and of the files loaded by path
  \<open>admin/__init__.py\<close> raises.
\<close>

definition broken_admin_env :: env where
  "broken_admin_env =
     sample_env\<lparr>import_handlers := Some (Exception ModuleNotFoundError ''No module named handlers''),
       exec_module := (\<lambda>n. if n = ''handlers.admin''
                            then Some (Exception OtherException ''name dp is not defined'')
                            else None)\<rparr>"

text \<open>Variations of the sample run, one collaborator changed in each.\<close>

definition empty_token_env :: env where
  "empty_token_env = sample_env\<lparr>bot_token := Some []\<rparr>"

definition malformed_token_env :: env where
  "malformed_token_env =
     sample_env\<lparr>bot_token := Some ''not a token'',
       Bot_init := (\<lambda>t. Some (Exception ValidationError ''Token is invalid!''))\<rparr>"

definition malformed_port_env :: env where
  "malformed_port_env = sample_env\<lparr>PORT := Some ''abc''\<rparr>"

definition missing_dir_env :: env where
  "missing_dir_env =
     sample_env\<lparr>import_handlers := Some (Exception ModuleNotFoundError ''No module named handlers''),
       isdir_handlers := False\<rparr>"

definition import_error_env :: env where
  "import_error_env =
     sample_env\<lparr>import_handlers := Some (Exception ImportError ''cannot import name dp'')\<rparr>"

definition listener_fails_env :: env where
  "listener_fails_env =
     sample_env\<lparr>start_server := Some (Exception OtherException ''address already in use'')\<rparr>"

section \<open>Basic facts about the model\<close>

lemma emit_simps [simp]:
  "trace (emit e s) = trace s @ [e]"
  "sys_modules (emit e s) = sys_modules s"
  "loaded (emit e s) = loaded s"
  by (simp_all add: emit_def)

lemma logger_simps [simp]:
  "trace (logger_info m s) = trace s @ [LogInfo m]"
  "sys_modules (logger_info m s) = sys_modules s"
  "loaded (logger_info m s) = loaded s"
  "trace (logger_error m s) = trace s @ [LogError m]"
  "sys_modules (logger_error m s) = sys_modules s"
  "loaded (logger_error m s) = loaded s"
  by (simp_all add: logger_info_def logger_error_def)

lemma set_module_simps [simp]:
  "trace (set_module n m s) = trace s"
  "sys_modules (set_module n m s) = dict_set n m (sys_modules s)"
  "loaded (set_module n m s) = loaded s"
  by (simp_all add: set_module_def)

lemma map_of_dict_set [simp]: "map_of (dict_set k v d) = (map_of d)(k \<mapsto> v)"
  by (induction d) (auto simp: fun_eq_iff)

lemma new_events_append [simp]: "trace s' = trace s @ evs \<Longrightarrow> new_events s s' = evs"
  by (simp add: new_events_def)

lemma ordinary_cases:
  "ordinary r \<Longrightarrow> r = None \<or> (\<exists>k m. r = Some (Exception k m))"
  by (auto simp: ordinary_def split: option.splits exn.splits)

lemma failure_log_cases:
  "failure_log env pre n = [] \<or> (\<exists>m. failure_log env pre n = [LogError m])"
  by (simp add: failure_log_def split: option.splits exn.splits)

subsection \<open>One module load\<close>

lemma load_module_fst [simp]: "fst (load_module env n r s) = exec_module env n"
  by (simp add: load_module_def Let_def split: option.splits)

lemma load_module_trace [simp]:
  "trace (snd (load_module env n r s)) = trace s @ [RegisterModule n, ExecModule n r]"
  by (simp add: load_module_def Let_def split: option.splits)

lemma load_module_loaded [simp]:
  "loaded (snd (load_module env n r s)) =
     loaded s @ (if exec_module env n = None then [n] else [])"
  by (simp add: load_module_def Let_def split: option.splits)

lemma load_module_registry [simp]:
  "map_of (sys_modules (snd (load_module env n r s))) =
     (map_of (sys_modules s))(n \<mapsto> (if exec_module env n = None then Initialized else Partial))"
  by (simp add: load_module_def Let_def split: option.splits)

lemma except_log_ordinary:
  "ordinary (fst p) \<Longrightarrow> fst (except_log pre p) = None"
  by (cases "(pre, p)" rule: except_log.cases) (simp_all add: ordinary_def)

lemma except_log_trace:
  "trace (snd (except_log pre p)) =
     trace (snd p) @ (case fst p of Some (Exception k m) \<Rightarrow> [LogError (pre @ m)] | _ \<Rightarrow> [])"
  by (cases "(pre, p)" rule: except_log.cases) simp_all

lemma except_log_rest [simp]:
  "loaded (snd (except_log pre p)) = loaded (snd p)"
  "sys_modules (snd (except_log pre p)) = sys_modules (snd p)"
  by (cases "(pre, p)" rule: except_log.cases; simp)+

lemma load_submodule_fst:
  "ordinary (exec_module env n) \<Longrightarrow> fst (load_submodule env n r s) = None"
  by (simp add: load_submodule_def except_log_ordinary)

lemma load_submodule_trace:
  "trace (snd (load_submodule env n r s)) = trace s @ load_events env (n, r)"
  by (simp add: load_submodule_def except_log_trace failure_log_def)

lemma load_submodule_loaded:
  "loaded (snd (load_submodule env n r s)) =
     loaded s @ (if exec_module env n = None then [n] else [])"
  by (simp add: load_submodule_def)

lemma load_submodule_registry:
  "map_of (sys_modules (snd (load_submodule env n r s))) =
     (map_of (sys_modules s))(n \<mapsto> (if exec_module env n = None then Initialized else Partial))"
  by (simp add: load_submodule_def)

lemma load_package_fst:
  "ordinary (exec_module env ''handlers'') \<Longrightarrow> fst (load_package env s) = None"
  by (simp add: load_package_def except_log_ordinary)

lemma load_package_trace:
  "trace (snd (load_package env s)) =
     trace s @ [RegisterModule ''handlers'', ExecModule ''handlers'' ''__init__.py''] @
     failure_log env ''Failed to load handlers package: '' ''handlers''"
  by (simp add: load_package_def except_log_trace failure_log_def)

lemma load_package_loaded:
  "loaded (snd (load_package env s)) =
     loaded s @ (if exec_module env ''handlers'' = None then [''handlers''] else [])"
  by (simp add: load_package_def)

lemma load_package_registry:
  "map_of (sys_modules (snd (load_package env s))) =
     (map_of (sys_modules s))
       (''handlers'' \<mapsto> (if exec_module env ''handlers'' = None then Initialized else Partial))"
  by (simp add: load_package_def)

subsection \<open>The loop over the submodules\<close>

lemma load_submodules_run:
  assumes "list_all (\<lambda>(n, r). ordinary (exec_module env n)) ms"
  shows "fst (load_submodules env ms s) = None \<and>
         trace (snd (load_submodules env ms s)) = trace s @ concat (map (load_events env) ms) \<and>
         loaded (snd (load_submodules env ms s)) =
           loaded s @ filter (\<lambda>n. exec_module env n = None) (map fst ms) \<and>
         (\<forall>n. map_of (sys_modules (snd (load_submodules env ms s))) n =
            (if n \<in> fst ` set ms
             then Some (if exec_module env n = None then Initialized else Partial)
             else map_of (sys_modules s) n))"
  using assms
proof (induction ms arbitrary: s)
  case Nil
  then show ?case by simp
next
  case (Cons p ms)
  obtain n r where p: "p = (n, r)" by (cases p)
  obtain s' where s': "load_submodule env n r s = (None, s')"
    using Cons.prems load_submodule_fst [of env n r s] p
    by (cases "load_submodule env n r s") auto
  have tr: "trace s' = trace s @ load_events env (n, r)"
    using load_submodule_trace [of env n r s] s' by simp
  have lo: "loaded s' = loaded s @ (if exec_module env n = None then [n] else [])"
    using load_submodule_loaded [of env n r s] s' by simp
  have re: "map_of (sys_modules s') =
     (map_of (sys_modules s))(n \<mapsto> (if exec_module env n = None then Initialized else Partial))"
    using load_submodule_registry [of env n r s] s' by simp
  have rest: "list_all (\<lambda>(n, r). ordinary (exec_module env n)) ms"
    using Cons.prems by simp
  note IH = Cons.IH [OF rest, of s']
  have run: "load_submodules env (p # ms) s = load_submodules env ms s'"
    by (simp add: p s')
  show ?case
    unfolding run using IH tr lo re p by auto
qed

subsection \<open>Every stage only appends events, none of them a hook's\<close>

lemma extends_refl [simp]: "extends s s"
  by (simp add: extends_def)

lemma extends_trans: "extends s s' \<Longrightarrow> extends s' s'' \<Longrightarrow> extends s s''"
  by (fastforce simp: extends_def)

lemma extends_events:
  "trace s' = trace s @ evs \<Longrightarrow> \<forall>e \<in> set evs. \<not> hook_event e \<Longrightarrow> extends s s'"
  by (auto simp: extends_def)

lemma extends_mem: "extends s s' \<Longrightarrow> e \<in> set (trace s) \<Longrightarrow> e \<in> set (trace s')"
  by (auto simp: extends_def)

lemma extends_quiet:
  "extends s s' \<Longrightarrow> hook_event e \<Longrightarrow> e \<notin> set (trace s) \<Longrightarrow> e \<notin> set (trace s')"
  by (auto simp: extends_def)

lemma failure_log_quiet: "\<forall>e \<in> set (failure_log env pre n). \<not> hook_event e"
  using failure_log_cases [of env pre n] by auto

lemma load_submodule_extends: "extends s (snd (load_submodule env n r s))"
  by (rule extends_events [OF load_submodule_trace]) (simp add: failure_log_quiet)

lemma load_package_extends: "extends s (snd (load_package env s))"
  by (rule extends_events [OF load_package_trace]) (simp add: failure_log_quiet)

lemma load_submodules_extends: "extends s (snd (load_submodules env ms s))"
proof (induction ms arbitrary: s)
  case Nil
  show ?case by simp
next
  case (Cons p ms)
  obtain n r where p: "p = (n, r)" by (cases p)
  obtain x s' where s': "load_submodule env n r s = (x, s')"
    by (cases "load_submodule env n r s")
  have step: "extends s s'"
    using load_submodule_extends [of s env n r] s' by simp
  show ?case
  proof (cases x)
    case None
    then show ?thesis
      using extends_trans [OF step Cons.IH [of s']] by (simp add: p s')
  next
    case (Some e)
    then show ?thesis using step by (simp add: p s')
  qed
qed

lemma fallback_extends: "extends s (snd (fallback env s))"
proof (cases "isdir_handlers env")
  case False
  then show ?thesis
    by (auto simp: fallback_def Let_def intro!: extends_events)
next
  case True
  have a: "extends s (emit SysPathInsert s)"
    by (rule extends_events [of _ _ "[SysPathInsert]"]) simp_all
  obtain x s2 where s2: "load_package env (emit SysPathInsert s) = (x, s2)"
    by (cases "load_package env (emit SysPathInsert s)")
  have b: "extends (emit SysPathInsert s) s2"
    using load_package_extends [of "emit SysPathInsert s" env] s2 by simp
  show ?thesis
  proof (cases x)
    case None
    then show ?thesis
      using extends_trans [OF extends_trans [OF a b] load_submodules_extends [of s2 env submodules]]
      by (simp add: fallback_def Let_def True s2)
  next
    case (Some e)
    then show ?thesis
      using extends_trans [OF a b] by (simp add: fallback_def Let_def True s2)
  qed
qed

lemma import_except_extends: "extends s (snd (import_except env e s))"
  by (cases "(env, e, s)" rule: import_except.cases) (simp_all add: fallback_extends)

lemma resolve_handlers_extends: "extends s (snd (resolve_handlers env s))"
proof -
  have a: "extends s (emit ImportHandlers s)"
    by (rule extends_events [of _ _ "[ImportHandlers]"]) simp_all
  show ?thesis
  proof (cases "import_handlers env")
    case None
    then show ?thesis
      by (auto simp: resolve_handlers_def Let_def intro!: extends_events [of _ _ "[ImportHandlers]"])
  next
    case (Some e)
    then show ?thesis
      using extends_trans [OF a import_except_extends [of "emit ImportHandlers s" env e]]
      by (simp add: resolve_handlers_def Let_def)
  qed
qed

lemma entry_point_extends: "extends s (snd (entry_point env cl s))"
  by (auto simp: entry_point_def call_async_def intro!: extends_events [of _ _ "[CoroutineCreated ''main'']"])

lemma with_bot_extends: "extends s (snd (with_bot env b s))"
proof -
  have a: "extends s (emit DispatcherCreated s)"
    by (rule extends_events [of _ _ "[DispatcherCreated]"]) simp_all
  show ?thesis
  proof (cases "listener_port env")
    case (Inl e)
    then show ?thesis using a by (simp add: with_bot_def Let_def)
  next
    case (Inr p)
    let ?s2 = "emit (WebServerCreated p) (emit DispatcherCreated s)"
    have b: "extends s ?s2"
      by (rule extends_events [of _ _ "[DispatcherCreated, WebServerCreated p]"]) simp_all
    obtain x s3 where s3: "resolve_handlers env ?s2 = (x, s3)"
      by (cases "resolve_handlers env ?s2")
    have c: "extends s s3"
      using extends_trans [OF b resolve_handlers_extends [of ?s2 env]] s3 by simp
    show ?thesis
    proof (cases x)
      case None
      then show ?thesis
        using extends_trans [OF c entry_point_extends [of s3 env "Some b"]]
        by (simp add: with_bot_def Let_def Inr s3)
    next
      case (Some e)
      then show ?thesis using c by (simp add: with_bot_def Let_def Inr s3)
    qed
  qed
qed

lemma failure_log_not_exec: "filter is_exec (failure_log env pre n) = []"
  using failure_log_cases [of env pre n] by auto

subsection \<open>Client construction and the module body\<close>

lemma bad_credential_construct:
  "empty_credential env \<or> rejected_credential env \<Longrightarrow> \<exists>k m. construct_bot env = Inl (Exception k m)"
  by (auto simp: empty_credential_def rejected_credential_def construct_bot_def
           split: option.splits exn.splits)

lemma valid_credential_construct:
  "valid_credential env \<Longrightarrow> \<exists>t. bot_token env = Some t \<and> construct_bot env = Inr (Client t)"
  by (auto simp: valid_credential_def construct_bot_def split: option.splits)

lemma bot_except_Exception:
  "\<exists>msg. bot_except (Exception k m) s = (Inr None, logger_error msg s)"
  by (cases k) (simp_all, blast+)

lemma init_bot_failure:
  "construct_bot env = Inl (Exception k m) \<Longrightarrow> \<exists>msg. init_bot env s = (Inr None, logger_error msg s)"
  using bot_except_Exception [of k m s] by (simp add: init_bot_def)

lemma init_bot_success:
  "construct_bot env = Inr (Client t) \<Longrightarrow>
     init_bot env s =
       (Inr (Some (Client t)), logger_info ''Bot initialized successfully'' (emit (BotCreated t) s))"
  by (simp add: init_bot_def)

lemma failure_path:
  assumes "empty_credential env \<or> rejected_credential env"
  shows "\<exists>msg. bot_py env =
           (Terminated (SystemExit 1),
            \<lparr>trace = [LogError msg, StorageCreated,
                      LogError ''Dispatcher not created due to bot initialization failure''],
             sys_modules = [], loaded = []\<rparr>)"
proof -
  obtain k m where "construct_bot env = Inl (Exception k m)"
    using bad_credential_construct [OF assms] by blast
  then obtain msg where "init_bot env init_state = (Inr None, logger_error msg init_state)"
    using init_bot_failure by blast
  then have "bot_py env =
           (Terminated (SystemExit 1),
            \<lparr>trace = [LogError msg, StorageCreated,
                      LogError ''Dispatcher not created due to bot initialization failure''],
             sys_modules = [], loaded = []\<rparr>)"
    by (simp add: bot_py_def Let_def logger_error_def emit_def init_state_def)
  then show ?thesis by blast
qed

lemma success_path:
  assumes "valid_credential env"
  shows "\<exists>t. bot_token env = Some t \<and>
           bot_py env =
             with_bot env (Client t)
               \<lparr>trace = [BotCreated t, LogInfo ''Bot initialized successfully'', StorageCreated],
                sys_modules = [], loaded = []\<rparr>"
proof -
  obtain t where t: "bot_token env = Some t" "construct_bot env = Inr (Client t)"
    using valid_credential_construct [OF assms] by blast
  have "bot_py env =
             with_bot env (Client t)
               \<lparr>trace = [BotCreated t, LogInfo ''Bot initialized successfully'', StorageCreated],
                sys_modules = [], loaded = []\<rparr>"
    by (simp add: bot_py_def init_bot_success [OF t(2)] Let_def logger_info_def emit_def
          init_state_def)
  with t show ?thesis by blast
qed

lemma init_bot_extends: "extends s (snd (init_bot env s))"
proof (cases "construct_bot env")
  case (Inr c)
  obtain t where "c = Client t" by (cases c)
  with Inr show ?thesis
    by (auto simp: init_bot_def
          intro!: extends_events [of _ _ "[BotCreated t, LogInfo ''Bot initialized successfully'']"])
next
  case (Inl e)
  show ?thesis
  proof (cases e)
    case (Exception k m)
    obtain msg where "bot_except (Exception k m) s = (Inr None, logger_error msg s)"
      using bot_except_Exception by blast
    then show ?thesis
      using Inl Exception by (auto simp: init_bot_def intro!: extends_events [of _ _ "[LogError msg]"])
  qed (simp_all add: init_bot_def Inl)
qed

lemma bot_py_extends: "extends init_state (snd (bot_py env))"
proof -
  obtain x s1 where s1: "init_bot env init_state = (x, s1)"
    by (cases "init_bot env init_state")
  have a: "extends init_state s1"
    using init_bot_extends [of init_state env] s1 by simp
  have b: "extends s1 (emit StorageCreated s1)"
    by (rule extends_events [of _ _ "[StorageCreated]"]) simp_all
  have c: "extends s1 (logger_error m (emit StorageCreated s1))" for m
    by (rule extends_events [of _ _ "[StorageCreated, LogError m]"]) simp_all
  show ?thesis
  proof (cases x)
    case (Inl e)
    then show ?thesis using a by (simp add: bot_py_def s1)
  next
    case (Inr cl)
    show ?thesis
    proof (cases cl)
      case None
      then show ?thesis
        using extends_trans [OF a c] by (simp add: bot_py_def s1 Inr Let_def)
    next
      case (Some b')
      then show ?thesis
        using extends_trans [OF extends_trans [OF a b] with_bot_extends [of "emit StorageCreated s1" env b']]
        by (simp add: bot_py_def s1 Inr Let_def)
    qed
  qed
qed

lemma bot_py_quiet: "hook_event e \<Longrightarrow> e \<notin> set (trace (snd (bot_py env)))"
  using extends_quiet [OF bot_py_extends, of e env] by (simp add: init_state_def)


lemma with_bot_crash:
  "listener_port env = Inl e \<Longrightarrow> with_bot env b s = (Terminated e, emit DispatcherCreated s)"
  by (simp add: with_bot_def Let_def)

lemma with_bot_extends_listener:
  assumes "listener_port env = Inr p"
  shows "extends (emit (WebServerCreated p) (emit DispatcherCreated s)) (snd (with_bot env b s))"
proof -
  let ?s2 = "emit (WebServerCreated p) (emit DispatcherCreated s)"
  obtain x s3 where s3: "resolve_handlers env ?s2 = (x, s3)"
    by (cases "resolve_handlers env ?s2")
  have c: "extends ?s2 s3"
    using resolve_handlers_extends [of ?s2 env] s3 by simp
  show ?thesis
  proof (cases x)
    case None
    then show ?thesis
      using extends_trans [OF c entry_point_extends [of s3 env "Some b"]]
      by (simp add: with_bot_def Let_def assms s3)
  next
    case (Some e)
    then show ?thesis using c by (simp add: with_bot_def Let_def assms s3)
  qed
qed

subsection \<open>The fallback as a whole\<close>

lemma fallback_no_dir:
  "\<not> isdir_handlers env \<Longrightarrow>
     fallback env s = (None, logger_error ''Handlers directory not found'' (emit SysPathInsert s))"
  by (simp add: fallback_def Let_def)

lemma fallback_run:
  assumes "isdir_handlers env" and "ordinary (exec_module env ''handlers'')"
    and "list_all (\<lambda>(n, r). ordinary (exec_module env n)) submodules"
  shows "fst (fallback env s) = None \<and>
         trace (snd (fallback env s)) =
           trace s @ [SysPathInsert, RegisterModule ''handlers'', ExecModule ''handlers'' ''__init__.py''] @
           failure_log env ''Failed to load handlers package: '' ''handlers'' @
           concat (map (load_events env) submodules) \<and>
         (\<forall>n. map_of (sys_modules (snd (fallback env s))) n =
            (if n \<in> fst ` set submodules
             then Some (if exec_module env n = None then Initialized else Partial)
             else ((map_of (sys_modules s))
                    (''handlers'' \<mapsto> (if exec_module env ''handlers'' = None
                                        then Initialized else Partial))) n))"
proof -
  let ?s1 = "emit SysPathInsert s"
  obtain s2 where s2: "load_package env ?s1 = (None, s2)"
    using load_package_fst [OF assms(2), of ?s1] by (cases "load_package env ?s1") auto
  have tr: "trace s2 = trace s @ [SysPathInsert, RegisterModule ''handlers'',
               ExecModule ''handlers'' ''__init__.py''] @
             failure_log env ''Failed to load handlers package: '' ''handlers''"
    using load_package_trace [of env ?s1] s2 by simp
  have re: "map_of (sys_modules s2) = (map_of (sys_modules s))
       (''handlers'' \<mapsto> (if exec_module env ''handlers'' = None then Initialized else Partial))"
    using load_package_registry [of env ?s1] s2 by simp
  have run: "fallback env s = load_submodules env submodules s2"
    by (simp add: fallback_def Let_def assms(1) s2)
  show ?thesis
    unfolding run using load_submodules_run [OF assms(3), of s2] tr re by simp
qed

lemma fallback_contained:
  assumes "ordinary (exec_module env ''handlers'')"
    and "list_all (\<lambda>(n, r). ordinary (exec_module env n)) submodules"
  shows "fst (fallback env s) = None"
proof (cases "isdir_handlers env")
  case True
  then show ?thesis using fallback_run [OF True assms] by simp
next
  case False
  then show ?thesis by (simp add: fallback_no_dir)
qed

lemma entry_point_finished:
  "fst (entry_point env cl s) = Finished \<and>
   (is_main env \<longrightarrow> CoroutineCreated ''main'' \<in> set (trace (snd (entry_point env cl s))))"
  by (simp add: entry_point_def call_async_def)

lemma with_bot_resolved:
  "listener_port env = Inr p \<Longrightarrow>
     with_bot env b s =
       (case resolve_handlers env (emit (WebServerCreated p) (emit DispatcherCreated s)) of
          (None, s2) \<Rightarrow> entry_point env (Some b) s2
        | (Some e, s2) \<Rightarrow> (Terminated e, s2))"
  by (simp add: with_bot_def Let_def split: prod.splits option.splits)

lemma with_bot_contained:
  assumes "listener_port env = Inr p" and "fst (resolve_handlers env (emit (WebServerCreated p) (emit DispatcherCreated s))) = None"
  shows "fst (with_bot env b s) = Finished \<and>
         (is_main env \<longrightarrow> CoroutineCreated ''main'' \<in> set (trace (snd (with_bot env b s)))) \<and>
         extends (snd (resolve_handlers env (emit (WebServerCreated p) (emit DispatcherCreated s))))
           (snd (with_bot env b s))"
proof -
  let ?s2 = "emit (WebServerCreated p) (emit DispatcherCreated s)"
  obtain s3 where s3: "resolve_handlers env ?s2 = (None, s3)"
    using assms(2) by (cases "resolve_handlers env ?s2") auto
  have "with_bot env b s = entry_point env (Some b) s3"
    by (simp add: with_bot_resolved [OF assms(1)] s3)
  then show ?thesis
    using entry_point_finished [of env "Some b" s3] entry_point_extends [of s3 env "Some b"]
    by (simp add: s3)
qed

lemma resolve_import_ok:
  "import_handlers env = None \<Longrightarrow> fst (resolve_handlers env s) = None"
  by (simp add: resolve_handlers_def Let_def)

lemma resolve_not_found:
  "import_handlers env = Some (Exception ModuleNotFoundError m) \<Longrightarrow>
     resolve_handlers env s = fallback env (emit ImportHandlers s)"
  by (simp add: resolve_handlers_def Let_def)

lemma import_except_other:
  "\<forall>m. e \<noteq> Exception ModuleNotFoundError m \<Longrightarrow> import_except env e s = (Some e, s)"
  by (cases "(env, e, s)" rule: import_except.cases) simp_all

lemma resolve_other:
  "import_handlers env = Some e \<Longrightarrow> \<forall>m. e \<noteq> Exception ModuleNotFoundError m \<Longrightarrow>
     resolve_handlers env s = (Some e, emit ImportHandlers s)"
  by (simp add: resolve_handlers_def Let_def import_except_other)

subsection \<open>The hooks and the executor\<close>










section \<open>The properties\<close>

subsection \<open>Isolation of submodule failures\<close>

text \<open>
  C5. In the fallback, the loop over the three known submodules (start, admin, owner)
  catches and logs the failure of a load and goes on: whatever ordinary outcome each of
  the three loads has, no exception leaves the loop, all three files are executed in the
  listed order, exactly the submodules whose code ran to the end are added to the
  HandlerModuleSet, and each failure is logged under the submodule's name. So if exactly
  one fails, the other two are loaded and register their routes.
\<close>

theorem submodule_failure_isolated:
  assumes "list_all (\<lambda>(n, r). ordinary (exec_module env n)) submodules"
  shows "fst (load_submodules env submodules s) = None \<and>
         filter is_exec (new_events s (snd (load_submodules env submodules s))) =
           map (\<lambda>(n, r). ExecModule n r) submodules \<and>
         loaded (snd (load_submodules env submodules s)) =
           loaded s @ filter (\<lambda>n. exec_module env n = None) (map fst submodules) \<and>
         (\<forall>k m. list_all (\<lambda>(n, r). exec_module env n = Some (Exception k m) \<longrightarrow>
              LogError (''Failed to import '' @ n @ '': '' @ m)
                \<in> set (new_events s (snd (load_submodules env submodules s)))) submodules)"
proof -
  note run = load_submodules_run [OF assms, of s]
  have tr: "new_events s (snd (load_submodules env submodules s)) =
              concat (map (load_events env) submodules)"
    using run by simp
  have a: "filter is_exec (concat (map (load_events env) submodules)) =
             map (\<lambda>(n, r). ExecModule n r) submodules"
    by (simp add: submodules_def failure_log_not_exec)
  have b: "\<forall>k m. list_all (\<lambda>(n, r). exec_module env n = Some (Exception k m) \<longrightarrow>
              LogError (''Failed to import '' @ n @ '': '' @ m)
                \<in> set (concat (map (load_events env) submodules))) submodules"
    by (simp add: submodules_def failure_log_def)
  show ?thesis
    unfolding tr using run a b by simp
qed

theorem submodule_failure_isolated_witness:
  "list_all (\<lambda>(n, r). ordinary (exec_module broken_admin_env n)) submodules \<and>
   fst (load_submodules broken_admin_env submodules init_state) = None \<and>
   filter is_exec (new_events init_state (snd (load_submodules broken_admin_env submodules init_state))) =
     [ExecModule ''handlers.start'' ''start.py'',
      ExecModule ''handlers.admin'' ''admin/__init__.py'',
      ExecModule ''handlers.owner'' ''owner/__init__.py''] \<and>
   loaded (snd (load_submodules broken_admin_env submodules init_state)) =
     [''handlers.start'', ''handlers.owner''] \<and>
   LogError ''Failed to import handlers.admin: name dp is not defined''
     \<in> set (new_events init_state (snd (load_submodules broken_admin_env submodules init_state)))"
proof -
  have h: "list_all (\<lambda>(n, r). ordinary (exec_module broken_admin_env n)) submodules"
    by (simp add: submodules_def broken_admin_env_def sample_env_def ordinary_def)
  have f: "exec_module broken_admin_env ''handlers.admin'' =
             Some (Exception OtherException ''name dp is not defined'')"
    by (simp add: broken_admin_env_def sample_env_def)
  show ?thesis
    using h f submodule_failure_isolated [OF h, of init_state]
    by (simp add: submodules_def broken_admin_env_def sample_env_def init_state_def)
qed

subsection \<open>A bad credential ends the process before any wiring\<close>

text \<open>
  C3. For every empty credential and every credential the client constructor rejects
  with an exception, client construction yields the absent client \<open>None\<close> (nothing is
  raised to the top level), and the process then exits through \<open>sys.exit(1)\<close>, with a
  non-zero status, having created no dispatcher and attempted no handler-module
  resolution: neither the import nor any step of the fallback.
\<close>

theorem bad_credential_exits:
  assumes "empty_credential env \<or> rejected_credential env"
  shows "fst (init_bot env init_state) = Inr None \<and>
         fst (bot_py env) = Terminated (SystemExit 1) \<and>
         exit_status (fst (bot_py env)) \<noteq> 0 \<and>
         DispatcherCreated \<notin> set (trace (snd (bot_py env))) \<and>
         ImportHandlers \<notin> set (trace (snd (bot_py env))) \<and>
         SysPathInsert \<notin> set (trace (snd (bot_py env))) \<and>
         (\<forall>n r. RegisterModule n \<notin> set (trace (snd (bot_py env))) \<and>
                ExecModule n r \<notin> set (trace (snd (bot_py env)))) \<and>
         loaded (snd (bot_py env)) = []"
proof -
  obtain k m where "construct_bot env = Inl (Exception k m)"
    using bad_credential_construct [OF assms] by blast
  then obtain msg' where "init_bot env init_state = (Inr None, logger_error msg' init_state)"
    using init_bot_failure by blast
  then have a: "fst (init_bot env init_state) = Inr None" by simp
  obtain msg where "bot_py env =
           (Terminated (SystemExit 1),
            \<lparr>trace = [LogError msg, StorageCreated,
                      LogError ''Dispatcher not created due to bot initialization failure''],
             sys_modules = [], loaded = []\<rparr>)"
    using failure_path [OF assms] by blast
  with a show ?thesis by simp
qed

theorem bad_credential_exits_witness:
  "(empty_credential malformed_token_env \<or> rejected_credential malformed_token_env) \<and>
   fst (init_bot malformed_token_env init_state) = Inr None \<and>
   exit_status (fst (bot_py malformed_token_env)) = 1 \<and>
   DispatcherCreated \<notin> set (trace (snd (bot_py malformed_token_env))) \<and>
   ImportHandlers \<notin> set (trace (snd (bot_py malformed_token_env)))"
proof -
  have h: "empty_credential malformed_token_env \<or> rejected_credential malformed_token_env"
    by (simp add: rejected_credential_def malformed_token_env_def sample_env_def)
  show ?thesis
    using h bad_credential_exits [OF h] by simp
qed

subsection \<open>The session store on the fatal path\<close>

text \<open>
  C8. \<open>MemoryStorage()\<close> is constructed whether or not the client could be built. On
  the fatal path of an empty or rejected credential the process exits with status 1
  after constructing it exactly once, and neither \<open>close\<close> nor \<open>wait_closed\<close> is ever
  invoked on it.
\<close>

theorem storage_created_unconditionally:
  assumes "empty_credential env \<or> rejected_credential env \<or> valid_credential env"
  shows "StorageCreated \<in> set (trace (snd (bot_py env))) \<and>
         StorageClose \<notin> set (trace (snd (bot_py env))) \<and>
         StorageWaitClosed \<notin> set (trace (snd (bot_py env))) \<and>
         (empty_credential env \<or> rejected_credential env \<longrightarrow>
            fst (bot_py env) = Terminated (SystemExit 1) \<and>
            exit_status (fst (bot_py env)) = 1 \<and>
            count_list (trace (snd (bot_py env))) StorageCreated = 1)"
proof -
  have quiet: "StorageClose \<notin> set (trace (snd (bot_py env)))"
      "StorageWaitClosed \<notin> set (trace (snd (bot_py env)))"
    by (simp_all add: bot_py_quiet)
  have bad: "fst (bot_py env) = Terminated (SystemExit 1) \<and>
            exit_status (fst (bot_py env)) = 1 \<and>
            count_list (trace (snd (bot_py env))) StorageCreated = 1 \<and>
            StorageCreated \<in> set (trace (snd (bot_py env)))"
    if bad_cred: "empty_credential env \<or> rejected_credential env"
  proof -
    obtain msg where "bot_py env =
           (Terminated (SystemExit 1),
            \<lparr>trace = [LogError msg, StorageCreated,
                      LogError ''Dispatcher not created due to bot initialization failure''],
             sys_modules = [], loaded = []\<rparr>)"
      using failure_path [OF bad_cred] by blast
    then show ?thesis by simp
  qed
  have good: "StorageCreated \<in> set (trace (snd (bot_py env)))" if good_cred: "valid_credential env"
  proof -
    obtain t where t: "bot_py env =
             with_bot env (Client t)
               \<lparr>trace = [BotCreated t, LogInfo ''Bot initialized successfully'', StorageCreated],
                sys_modules = [], loaded = []\<rparr>"
      using success_path [OF good_cred] by blast
    show ?thesis
      unfolding t by (rule extends_mem [OF with_bot_extends]) simp
  qed
  show ?thesis using assms quiet bad good by blast
qed

theorem storage_created_unconditionally_witness:
  "(empty_credential empty_token_env \<or> rejected_credential empty_token_env \<or>
      valid_credential empty_token_env) \<and>
   StorageCreated \<in> set (trace (snd (bot_py empty_token_env))) \<and>
   StorageClose \<notin> set (trace (snd (bot_py empty_token_env))) \<and>
   StorageWaitClosed \<notin> set (trace (snd (bot_py empty_token_env))) \<and>
   exit_status (fst (bot_py empty_token_env)) = 1"
proof -
  have e: "empty_credential empty_token_env"
    by (simp add: empty_credential_def empty_token_env_def sample_env_def)
  then have h: "empty_credential empty_token_env \<or> rejected_credential empty_token_env \<or>
      valid_credential empty_token_env" by simp
  show ?thesis
    using e h storage_created_unconditionally [OF h] by simp
qed

subsection \<open>A malformed \<open>PORT\<close>\<close>

text \<open>
  C9. With a valid credential, a \<open>PORT\<close> value that \<open>int\<close> rejects makes line 41 raise
  its \<open>ValueError\<close> outside any \<open>try\<close>: the process ends with a traceback and status 1, no
  listener object is constructed, no handler is imported and the entry point is not
  reached. The default 8080 is used only when \<open>PORT\<close> is absent; a present value that
  parses is used as it is.
\<close>

theorem malformed_port_crashes:
  assumes "valid_credential env"
  shows "(\<forall>v msg. PORT env = Some v \<and> py_int env v = Inl msg \<longrightarrow>
            fst (bot_py env) = Terminated (Exception ValueError msg) \<and>
            exit_status (fst (bot_py env)) = 1 \<and>
            (\<forall>p. WebServerCreated p \<notin> set (trace (snd (bot_py env)))) \<and>
            ImportHandlers \<notin> set (trace (snd (bot_py env))) \<and>
            (\<forall>c. CoroutineCreated c \<notin> set (trace (snd (bot_py env))))) \<and>
         (\<forall>v n. PORT env = Some v \<and> py_int env v = Inr n \<longrightarrow>
            WebServerCreated n \<in> set (trace (snd (bot_py env)))) \<and>
         (PORT env = None \<longrightarrow> WebServerCreated 8080 \<in> set (trace (snd (bot_py env))))"
proof -
  obtain t where t: "bot_py env =
             with_bot env (Client t)
               \<lparr>trace = [BotCreated t, LogInfo ''Bot initialized successfully'', StorageCreated],
                sys_modules = [], loaded = []\<rparr>"
    using success_path [OF assms] by blast
  have created: "WebServerCreated p \<in> set (trace (snd (bot_py env)))"
    if "listener_port env = Inr p" for p
    unfolding t by (rule extends_mem [OF with_bot_extends_listener [OF that]]) simp
  have a: "fst (bot_py env) = Terminated (Exception ValueError msg) \<and>
            exit_status (fst (bot_py env)) = 1 \<and>
            (\<forall>p. WebServerCreated p \<notin> set (trace (snd (bot_py env)))) \<and>
            ImportHandlers \<notin> set (trace (snd (bot_py env))) \<and>
            (\<forall>c. CoroutineCreated c \<notin> set (trace (snd (bot_py env))))"
    if "PORT env = Some v" "py_int env v = Inl msg" for v msg
  proof -
    have "listener_port env = Inl (Exception ValueError msg)"
      using that by (simp add: listener_port_def)
    then show ?thesis
      unfolding t by (simp add: with_bot_crash)
  qed
  have b: "WebServerCreated n \<in> set (trace (snd (bot_py env)))"
    if "PORT env = Some v" "py_int env v = Inr n" for v n
    using that by (intro created) (simp add: listener_port_def)
  have c: "WebServerCreated 8080 \<in> set (trace (snd (bot_py env)))" if "PORT env = None"
    using that by (intro created) (simp add: listener_port_def)
  show ?thesis using a b c by blast
qed

theorem malformed_port_crashes_witness:
  "valid_credential malformed_port_env \<and>
   PORT malformed_port_env = Some ''abc'' \<and>
   py_int malformed_port_env ''abc'' =
     Inl (''invalid literal for int() with base 10: '' @ [CHR 0x27] @ ''abc'' @ [CHR 0x27]) \<and>
   fst (bot_py malformed_port_env) =
     Terminated (Exception ValueError
       (''invalid literal for int() with base 10: '' @ [CHR 0x27] @ ''abc'' @ [CHR 0x27])) \<and>
   exit_status (fst (bot_py malformed_port_env)) = 1 \<and>
   WebServerCreated 8080 \<notin> set (trace (snd (bot_py malformed_port_env))) \<and>
   valid_credential sample_env \<and> PORT sample_env = None \<and>
   WebServerCreated 8080 \<in> set (trace (snd (bot_py sample_env)))"
proof -
  have h1: "valid_credential malformed_port_env"
    by (simp add: valid_credential_def malformed_port_env_def sample_env_def)
  have h2: "PORT malformed_port_env = Some ''abc''"
      "py_int malformed_port_env ''abc'' =
         Inl (''invalid literal for int() with base 10: '' @ [CHR 0x27] @ ''abc'' @ [CHR 0x27])"
    by (simp_all add: malformed_port_env_def sample_env_def int_of_literal_def decimal_def
          digit_def)
  have h3: "valid_credential sample_env" "PORT sample_env = None"
    by (simp_all add: valid_credential_def sample_env_def)
  show ?thesis
    using h1 h2 h3 malformed_port_crashes [OF h1] malformed_port_crashes [OF h3(1)]
    by simp
qed

subsection \<open>The entry point\<close>

text \<open>
  C1 (the code departs from the claim). The claim is that running \<open>bot.py\<close> with a
  valid credential starts the polling loop and blocks. In the code \<open>main\<close> is declared
  \<open>async\<close> and the guard calls it as \<open>main()\<close> without awaiting or running the
  coroutine, so in no run of the module body is the polling loop started or a hook
  entered; the sample run ends at once with status 0, its last act the creation of the
  coroutine object. The body of \<open>main\<close> itself does start polling when it is run.
\<close>

theorem entry_point_never_polls:
  "PollingStarted \<notin> set (trace (snd (bot_py env))) \<and>
   StartServerCalled \<notin> set (trace (snd (bot_py env))) \<and>
   bot_py sample_env =
     (Finished,
      \<lparr>trace = [BotCreated ''123456:AAExampleToken'', LogInfo ''Bot initialized successfully'',
                StorageCreated, DispatcherCreated, WebServerCreated 8080, ImportHandlers,
                CoroutineCreated ''main''],
       sys_modules = [(''handlers'', Initialized)], loaded = [''handlers'']\<rparr>) \<and>
   exit_status (fst (bot_py sample_env)) = 0 \<and>
   PollingStarted
     \<in> set (trace (snd (main sample_env (Some (Client ''123456:AAExampleToken'')) init_state)))"
proof -
  have a: "PollingStarted \<notin> set (trace (snd (bot_py env)))"
      "StartServerCalled \<notin> set (trace (snd (bot_py env)))"
    by (simp_all add: bot_py_quiet)
  have b: "bot_py sample_env =
     (Finished,
      \<lparr>trace = [BotCreated ''123456:AAExampleToken'', LogInfo ''Bot initialized successfully'',
                StorageCreated, DispatcherCreated, WebServerCreated 8080, ImportHandlers,
                CoroutineCreated ''main''],
       sys_modules = [(''handlers'', Initialized)], loaded = [''handlers'']\<rparr>)"
    by (simp add: bot_py_def init_bot_def construct_bot_def sample_env_def with_bot_def
          listener_port_def resolve_handlers_def entry_point_def call_async_def emit_def
          logger_info_def logger_error_def set_module_def init_state_def Let_def)
  have c: "PollingStarted
     \<in> set (trace (snd (main sample_env (Some (Client ''123456:AAExampleToken'')) init_state)))"
    by (simp add: main_def start_polling_def on_startup_def on_shutdown_def sample_env_def
          emit_def logger_info_def logger_error_def init_state_def Let_def)
  show ?thesis using a b c by simp
qed

subsection \<open>A missing handler directory\<close>

text \<open>
  C7 (the code departs from the claim). With a valid credential, \<open>import handlers\<close>
  raising \<open>ModuleNotFoundError\<close> and no \<open>handlers\<close> directory, the fallback is entered
  once, the only error logged is "Handlers directory not found", nothing is raised and
  the HandlerModuleSet is empty, as claimed; but the process does not reach a running
  state: the coroutine of \<open>main\<close> is created and dropped, polling never starts and the
  process ends with status 0.
\<close>

theorem missing_directory_run:
  "bot_py missing_dir_env =
     (Finished,
      \<lparr>trace = [BotCreated ''123456:AAExampleToken'', LogInfo ''Bot initialized successfully'',
                StorageCreated, DispatcherCreated, WebServerCreated 8080, ImportHandlers,
                SysPathInsert, LogError ''Handlers directory not found'',
                CoroutineCreated ''main''],
       sys_modules = [], loaded = []\<rparr>) \<and>
   exit_status (fst (bot_py missing_dir_env)) = 0 \<and>
   count_list (trace (snd (bot_py missing_dir_env))) SysPathInsert = 1 \<and>
   PollingStarted \<notin> set (trace (snd (bot_py missing_dir_env)))"
proof -
  have b: "bot_py missing_dir_env =
     (Finished,
      \<lparr>trace = [BotCreated ''123456:AAExampleToken'', LogInfo ''Bot initialized successfully'',
                StorageCreated, DispatcherCreated, WebServerCreated 8080, ImportHandlers,
                SysPathInsert, LogError ''Handlers directory not found'',
                CoroutineCreated ''main''],
       sys_modules = [], loaded = []\<rparr>)"
    by (simp add: bot_py_def init_bot_def construct_bot_def missing_dir_env_def sample_env_def
          with_bot_def listener_port_def resolve_handlers_def fallback_def entry_point_def
          call_async_def emit_def logger_info_def logger_error_def set_module_def
          init_state_def Let_def)
  show ?thesis unfolding b by simp
qed

subsection \<open>Which resolution failures are contained\<close>

text \<open>
  C2 (amended). The statement that every failure of handler-module resolution is
  contained does not hold for \<open>import handlers\<close>: its \<open>try\<close> has the single clause
  \<open>except ModuleNotFoundError\<close>. What holds, for a valid credential and a usable port:
  when \<open>import handlers\<close> succeeds or raises \<open>ModuleNotFoundError\<close>, and the loads of the
  fallback return or raise exceptions derived from \<open>Exception\<close>, the module body runs to
  its end and reaches the entry point; in the fallback every failed load is logged under
  its own message, and a missing directory is logged; when \<open>import handlers\<close> raises
  anything else, that exception is not caught and not logged and ends the process.
\<close>

theorem resolution_containment:
  assumes "valid_credential env" and "listener_port env = Inr p"
    and "ordinary (exec_module env ''handlers'')"
    and "list_all (\<lambda>(n, r). ordinary (exec_module env n)) submodules"
  shows "(import_handlers env = None \<or>
            (\<exists>m. import_handlers env = Some (Exception ModuleNotFoundError m)) \<longrightarrow>
            fst (bot_py env) = Finished \<and>
            (is_main env \<longrightarrow> CoroutineCreated ''main'' \<in> set (trace (snd (bot_py env))))) \<and>
         (\<forall>m. import_handlers env = Some (Exception ModuleNotFoundError m) \<and> isdir_handlers env \<longrightarrow>
            (\<forall>k' m'.
               (exec_module env ''handlers'' = Some (Exception k' m') \<longrightarrow>
                  LogError (''Failed to load handlers package: '' @ m')
                    \<in> set (trace (snd (bot_py env)))) \<and>
               list_all (\<lambda>(n, r). exec_module env n = Some (Exception k' m') \<longrightarrow>
                  LogError (''Failed to import '' @ n @ '': '' @ m')
                    \<in> set (trace (snd (bot_py env)))) submodules)) \<and>
         (\<forall>m. import_handlers env = Some (Exception ModuleNotFoundError m) \<and> \<not> isdir_handlers env \<longrightarrow>
            LogError ''Handlers directory not found'' \<in> set (trace (snd (bot_py env)))) \<and>
         (\<forall>e. import_handlers env = Some e \<and> (\<forall>m. e \<noteq> Exception ModuleNotFoundError m) \<longrightarrow>
            fst (bot_py env) = Terminated e \<and>
            (\<forall>msg. LogError msg \<notin> set (trace (snd (bot_py env)))))"
proof -
  obtain t where t: "bot_py env =
             with_bot env (Client t)
               \<lparr>trace = [BotCreated t, LogInfo ''Bot initialized successfully'', StorageCreated],
                sys_modules = [], loaded = []\<rparr>"
    using success_path [OF assms(1)] by blast
  let ?s0 = "\<lparr>trace = [BotCreated t, LogInfo ''Bot initialized successfully'', StorageCreated],
                sys_modules = [], loaded = []\<rparr>"
  let ?s2 = "emit (WebServerCreated p) (emit DispatcherCreated ?s0)"
  let ?s3 = "emit ImportHandlers ?s2"
  have contained: "fst (bot_py env) = Finished \<and>
            (is_main env \<longrightarrow> CoroutineCreated ''main'' \<in> set (trace (snd (bot_py env)))) \<and>
            extends (snd (resolve_handlers env ?s2)) (snd (bot_py env))"
    if "fst (resolve_handlers env ?s2) = None"
    unfolding t using with_bot_contained [OF assms(2) that] by simp
  have ok: "fst (bot_py env) = Finished \<and>
            (is_main env \<longrightarrow> CoroutineCreated ''main'' \<in> set (trace (snd (bot_py env))))"
    if "import_handlers env = None"
    using contained resolve_import_ok [OF that] by simp
  have nf: "fst (bot_py env) = Finished \<and>
            (is_main env \<longrightarrow> CoroutineCreated ''main'' \<in> set (trace (snd (bot_py env)))) \<and>
            extends (snd (fallback env ?s3)) (snd (bot_py env))"
    if "import_handlers env = Some (Exception ModuleNotFoundError m)" for m
    using contained fallback_contained [OF assms(3,4), of ?s3] resolve_not_found [OF that, of ?s2]
    by simp
  have logged: "(exec_module env ''handlers'' = Some (Exception k' m') \<longrightarrow>
                  LogError (''Failed to load handlers package: '' @ m')
                    \<in> set (trace (snd (bot_py env)))) \<and>
               list_all (\<lambda>(n, r). exec_module env n = Some (Exception k' m') \<longrightarrow>
                  LogError (''Failed to import '' @ n @ '': '' @ m')
                    \<in> set (trace (snd (bot_py env)))) submodules"
    if imp: "import_handlers env = Some (Exception ModuleNotFoundError m)"
      and dir: "isdir_handlers env" for m k' m'
  proof -
    note ext = extends_mem [OF conjunct2 [OF conjunct2 [OF nf [OF imp]]]]
    note run = fallback_run [OF dir assms(3,4), of ?s3]
    have a: "LogError (''Failed to load handlers package: '' @ m') \<in> set (trace (snd (fallback env ?s3)))"
      if "exec_module env ''handlers'' = Some (Exception k' m')"
      using run that by (simp add: failure_log_def)
    have b: "list_all (\<lambda>(n, r). exec_module env n = Some (Exception k' m') \<longrightarrow>
                  LogError (''Failed to import '' @ n @ '': '' @ m')
                    \<in> set (trace (snd (fallback env ?s3)))) submodules"
      using run by (simp add: submodules_def failure_log_def)
    show ?thesis
      using a b ext by (simp add: submodules_def)
  qed
  have nodir: "LogError ''Handlers directory not found'' \<in> set (trace (snd (bot_py env)))"
    if imp: "import_handlers env = Some (Exception ModuleNotFoundError m)"
      and dir: "\<not> isdir_handlers env" for m
    by (rule extends_mem [OF conjunct2 [OF conjunct2 [OF nf [OF imp]]]])
       (simp add: fallback_no_dir [OF dir])
  have other: "fst (bot_py env) = Terminated e \<and>
            (\<forall>msg. LogError msg \<notin> set (trace (snd (bot_py env))))"
    if "import_handlers env = Some e" "\<forall>m. e \<noteq> Exception ModuleNotFoundError m" for e
    unfolding t by (simp add: with_bot_resolved [OF assms(2)] resolve_other [OF that])
  show ?thesis
    using ok nf logged nodir other by blast
qed

theorem resolution_containment_witness:
  "valid_credential broken_admin_env \<and> listener_port broken_admin_env = Inr 8080 \<and>
   ordinary (exec_module broken_admin_env ''handlers'') \<and>
   list_all (\<lambda>(n, r). ordinary (exec_module broken_admin_env n)) submodules \<and>
   import_handlers broken_admin_env = Some (Exception ModuleNotFoundError ''No module named handlers'') \<and>
   isdir_handlers broken_admin_env \<and>
   exec_module broken_admin_env ''handlers.admin'' =
     Some (Exception OtherException ''name dp is not defined'') \<and>
   fst (bot_py broken_admin_env) = Finished \<and>
   CoroutineCreated ''main'' \<in> set (trace (snd (bot_py broken_admin_env))) \<and>
   LogError ''Failed to import handlers.admin: name dp is not defined''
     \<in> set (trace (snd (bot_py broken_admin_env)))"
proof -
  have h1: "valid_credential broken_admin_env"
    by (simp add: valid_credential_def broken_admin_env_def sample_env_def)
  have h2: "listener_port broken_admin_env = Inr 8080"
    by (simp add: listener_port_def broken_admin_env_def sample_env_def)
  have h3: "ordinary (exec_module broken_admin_env ''handlers'')"
    by (simp add: ordinary_def broken_admin_env_def sample_env_def)
  have h4: "list_all (\<lambda>(n, r). ordinary (exec_module broken_admin_env n)) submodules"
    by (simp add: submodules_def broken_admin_env_def sample_env_def ordinary_def)
  have h5: "import_handlers broken_admin_env =
              Some (Exception ModuleNotFoundError ''No module named handlers'')"
      "isdir_handlers broken_admin_env" "is_main broken_admin_env"
      "exec_module broken_admin_env ''handlers.admin'' =
         Some (Exception OtherException ''name dp is not defined'')"
    by (simp_all add: broken_admin_env_def sample_env_def)
  note inst = resolution_containment [OF h1 h2 h3 h4]
  have a: "fst (bot_py broken_admin_env) = Finished \<and>
           CoroutineCreated ''main'' \<in> set (trace (snd (bot_py broken_admin_env)))"
    using inst h5 by blast
  have "list_all (\<lambda>(n, r). exec_module broken_admin_env n =
                 Some (Exception OtherException ''name dp is not defined'') \<longrightarrow>
                  LogError (''Failed to import '' @ n @ '': '' @ ''name dp is not defined'')
                    \<in> set (trace (snd (bot_py broken_admin_env)))) submodules"
    using inst h5 by blast
  then have b: "LogError ''Failed to import handlers.admin: name dp is not defined''
     \<in> set (trace (snd (bot_py broken_admin_env)))"
    using h5(4) by (simp add: submodules_def)
  show ?thesis using h1 h2 h3 h4 h5 a b by simp
qed

text \<open>
  The run refuting the unamended statement of C2: \<open>import handlers\<close> raises an
  \<open>ImportError\<close> that is not a \<open>ModuleNotFoundError\<close>; the process ends there with a
  traceback and status 1, and nothing is logged about it.
\<close>

theorem import_error_terminates:
  "fst (bot_py import_error_env) = Terminated (Exception ImportError ''cannot import name dp'') \<and>
   fst (bot_py import_error_env) \<noteq> Finished \<and>
   exit_status (fst (bot_py import_error_env)) = 1 \<and>
   trace (snd (bot_py import_error_env)) =
     [BotCreated ''123456:AAExampleToken'', LogInfo ''Bot initialized successfully'',
      StorageCreated, DispatcherCreated, WebServerCreated 8080, ImportHandlers]"
  by (simp add: bot_py_def init_bot_def construct_bot_def import_error_env_def sample_env_def
        with_bot_def listener_port_def resolve_handlers_def emit_def logger_info_def
        init_state_def Let_def)

subsection \<open>The module registry after the fallback\<close>

text \<open>
  C10. In the fallback, with the package directory present, each of the three
  submodules is put into \<open>sys.modules\<close> under its name before its code is executed, and
  nothing removes it: after the fallback the registry has an entry for every submodule,
  \<open>Initialized\<close> where the code ran to the end and \<open>Partial\<close> where its execution
  raised.
\<close>

theorem fallback_registers_before_exec:
  assumes "isdir_handlers env" and "ordinary (exec_module env ''handlers'')"
    and "list_all (\<lambda>(n, r). ordinary (exec_module env n)) submodules"
  shows "fst (fallback env s) = None \<and>
         list_all (\<lambda>(n, r).
            map_of (sys_modules (snd (fallback env s))) n =
              Some (if exec_module env n = None then Initialized else Partial) \<and>
            before (RegisterModule n) (ExecModule n r) (new_events s (snd (fallback env s))))
           submodules"
proof -
  note run = fallback_run [OF assms, of s]
  have ev: "new_events s (snd (fallback env s)) =
           [SysPathInsert, RegisterModule ''handlers'', ExecModule ''handlers'' ''__init__.py''] @
           failure_log env ''Failed to load handlers package: '' ''handlers'' @
           concat (map (load_events env) submodules)"
    using run by simp
  have reg: "list_all (\<lambda>(n, r).
            map_of (sys_modules (snd (fallback env s))) n =
              Some (if exec_module env n = None then Initialized else Partial)) submodules"
    using run by (simp add: submodules_def)
  have ord: "list_all (\<lambda>(n, r).
            before (RegisterModule n) (ExecModule n r) (new_events s (snd (fallback env s))))
           submodules"
    unfolding ev
    using failure_log_cases [of env "''Failed to load handlers package: ''" "''handlers''"]
      failure_log_cases [of env "''Failed to import handlers.start: ''" "''handlers.start''"]
      failure_log_cases [of env "''Failed to import handlers.admin: ''" "''handlers.admin''"]
      failure_log_cases [of env "''Failed to import handlers.owner: ''" "''handlers.owner''"]
    by (auto simp: submodules_def before_def)
  have no_exn: "fst (fallback env s) = None"
    using run by simp
  show ?thesis
    using no_exn reg ord by (simp add: submodules_def)
qed

theorem fallback_registers_before_exec_witness:
  "isdir_handlers broken_admin_env \<and> ordinary (exec_module broken_admin_env ''handlers'') \<and>
   list_all (\<lambda>(n, r). ordinary (exec_module broken_admin_env n)) submodules \<and>
   map_of (sys_modules (snd (fallback broken_admin_env init_state))) ''handlers.admin'' = Some Partial \<and>
   map_of (sys_modules (snd (fallback broken_admin_env init_state))) ''handlers.start'' = Some Initialized \<and>
   map_of (sys_modules (snd (fallback broken_admin_env init_state))) ''handlers.owner'' = Some Initialized \<and>
   before (RegisterModule ''handlers.admin'') (ExecModule ''handlers.admin'' ''admin/__init__.py'')
     (new_events init_state (snd (fallback broken_admin_env init_state)))"
proof -
  have h1: "isdir_handlers broken_admin_env"
    by (simp add: broken_admin_env_def sample_env_def)
  have h3: "ordinary (exec_module broken_admin_env ''handlers'')"
    by (simp add: ordinary_def broken_admin_env_def sample_env_def)
  have h4: "list_all (\<lambda>(n, r). ordinary (exec_module broken_admin_env n)) submodules"
    by (simp add: submodules_def broken_admin_env_def sample_env_def ordinary_def)
  have f: "exec_module broken_admin_env ''handlers.admin'' =
             Some (Exception OtherException ''name dp is not defined'')"
     "exec_module broken_admin_env ''handlers.start'' = None"
     "exec_module broken_admin_env ''handlers.owner'' = None"
    by (simp_all add: broken_admin_env_def sample_env_def)
  show ?thesis
    using h1 h3 h4 f fallback_registers_before_exec [OF h1 h3 h4, of init_state]
    by (simp add: submodules_def)
qed

subsection \<open>The shutdown hook\<close>


subsection \<open>The startup hook\<close>

text \<open>
  C6. Whenever \<open>start_server\<close> raises an exception derived from \<open>Exception\<close> inside the
  startup hook, the hook catches it, logs it and returns normally: it adds the start
  attempt and the logged error to the trace and changes nothing else. The executor
  therefore goes on to start the polling loop after the logged error, and returns what
  it returns, with the same events after the hook, as in the run in which the listener
  starts.
\<close>

theorem listener_failure_contained:
  assumes "start_server env = Some (Exception k m)"
  shows "fst (on_startup env s) = Inr () \<and>
         new_events s (snd (on_startup env s)) =
           [LogInfo ''Bot is starting up...'', StartServerCalled,
            LogError (''Failed to start health check server: '' @ m)] \<and>
         sys_modules (snd (on_startup env s)) = sys_modules s \<and>
         loaded (snd (on_startup env s)) = loaded s \<and>
         before (LogError (''Failed to start health check server: '' @ m)) PollingStarted
           (new_events s (snd (start_polling env s))) \<and>
         fst (start_polling env s) = fst (start_polling (env\<lparr>start_server := None\<rparr>) s) \<and>
         new_events (snd (on_startup env s)) (snd (start_polling env s)) =
           new_events (snd (on_startup (env\<lparr>start_server := None\<rparr>) s))
             (snd (start_polling (env\<lparr>start_server := None\<rparr>) s))"
  using assms
  by (simp add: on_startup_def start_polling_def on_shutdown_def Let_def before_def
        split: option.splits)

theorem listener_failure_contained_witness:
  "start_server listener_fails_env = Some (Exception OtherException ''address already in use'') \<and>
   fst (on_startup listener_fails_env init_state) = Inr () \<and>
   new_events init_state (snd (on_startup listener_fails_env init_state)) =
     [LogInfo ''Bot is starting up...'', StartServerCalled,
      LogError ''Failed to start health check server: address already in use''] \<and>
   before (LogError ''Failed to start health check server: address already in use'') PollingStarted
     (new_events init_state (snd (start_polling listener_fails_env init_state)))"
proof -
  have h: "start_server listener_fails_env = Some (Exception OtherException ''address already in use'')"
    by (simp add: listener_fails_env_def sample_env_def)
  show ?thesis
    using h listener_failure_contained [OF h, of init_state] by simp
qed

end
